theory Spec2Isabelle
  imports Main
begin

section \<open>Python strings\<close>

text \<open>
  A Python \<open>str\<close> is a sequence of Unicode code points, and \<open>len\<close> counts code points.
  A character is modelled by its code point, a string by the list of its code points.
\<close>

type_synonym pychar = nat
type_synonym pystr = "pychar list"

definition cps :: "string \<Rightarrow> pystr" where
  \<comment> \<open>The code points of an ASCII literal.\<close>
  "cps s = map of_char s"

text \<open>
  The scripts call \<open>str.strip\<close>, \<open>str.isupper\<close> and \<open>str.lower\<close>, which read the Unicode
  character database of the interpreter. The database is not part of the repository: it is
  a parameter of every definition that needs it, and every theorem holds for any database.
\<close>

record unicode_db =
  ch_isspace :: "pychar \<Rightarrow> bool"
  ch_isupper :: "pychar \<Rightarrow> bool"
  ch_islower :: "pychar \<Rightarrow> bool"
  ch_istitle :: "pychar \<Rightarrow> bool"
  lower_of :: "pystr \<Rightarrow> pystr"

definition ascii_db :: unicode_db where
  \<comment> \<open>The database on the code points below 128 (the other code points are taken as
      uncased and non-space); the concrete inputs evaluated below are ASCII.\<close>
  "ascii_db =
     \<lparr> ch_isspace = (\<lambda>c. c \<in> {9, 10, 11, 12, 13, 28, 29, 30, 31, 32}),
       ch_isupper = (\<lambda>c. 65 \<le> c \<and> c \<le> 90),
       ch_islower = (\<lambda>c. 97 \<le> c \<and> c \<le> 122),
       ch_istitle = (\<lambda>c. False),
       lower_of = map (\<lambda>c. if 65 \<le> c \<and> c \<le> 90 then c + 32 else c) \<rparr>"

datatype py_error = IndexError

definition getitem :: "pystr \<Rightarrow> nat \<Rightarrow> py_error + pychar" where
  \<comment> \<open>\<open>s[i]\<close> for a non-negative index.\<close>
  "getitem s i = (if i < length s then Inr (s ! i) else Inl IndexError)"

definition str_isupper :: "unicode_db \<Rightarrow> pystr \<Rightarrow> bool" where
  \<comment> \<open>\<open>s.isupper()\<close>: no lowercase or titlecase character and at least one uppercase one;
      a string of one character is uppercase when the character is.\<close>
  "str_isupper U s =
     (case s of
        [] \<Rightarrow> False
      | [c] \<Rightarrow> ch_isupper U c
      | _ \<Rightarrow> list_all (\<lambda>c. \<not> ch_islower U c \<and> \<not> ch_istitle U c) s \<and> list_ex (ch_isupper U) s)"

definition str_strip :: "unicode_db \<Rightarrow> pystr \<Rightarrow> pystr" where
  "str_strip U s = rev (dropWhile (ch_isspace U) (rev (dropWhile (ch_isspace U) s)))"

definition str_lstrip :: "pystr \<Rightarrow> pystr \<Rightarrow> pystr" where
  \<comment> \<open>\<open>s.lstrip(chars)\<close>\<close>
  "str_lstrip chars s = dropWhile (\<lambda>c. c \<in> set chars) s"

definition str_startswith :: "pystr \<Rightarrow> pystr \<Rightarrow> bool" where
  "str_startswith s p = (take (length p) s = p)"

fun in_str :: "pystr \<Rightarrow> pystr \<Rightarrow> bool" where
  \<comment> \<open>\<open>p in s\<close>\<close>
  "in_str p [] = (p = [])"
| "in_str p (c # cs) = (str_startswith (c # cs) p \<or> in_str p cs)"

fun str_split :: "pychar \<Rightarrow> pystr \<Rightarrow> pystr list" where
  \<comment> \<open>\<open>s.split(sep)\<close> for a separator of one character\<close>
  "str_split sep [] = [[]]"
| "str_split sep (c # cs) =
     (if c = sep then [] # str_split sep cs
      else (case str_split sep cs of [] \<Rightarrow> [[c]] | w # ws \<Rightarrow> (c # w) # ws))"

fun replace_from :: "pystr \<Rightarrow> pystr \<Rightarrow> nat \<Rightarrow> pystr \<Rightarrow> pystr" where
  \<comment> \<open>The scan of \<open>str.replace\<close>: \<open>skip\<close> characters of a match are still to be dropped.\<close>
  "replace_from old new skip [] = []"
| "replace_from old new (Suc k) (c # cs) = replace_from old new k cs"
| "replace_from old new 0 (c # cs) =
     (if str_startswith (c # cs) old then new @ replace_from old new (length old - 1) cs
      else c # replace_from old new 0 cs)"

definition str_replace :: "pystr \<Rightarrow> pystr \<Rightarrow> pystr \<Rightarrow> pystr" where
  \<comment> \<open>\<open>s.replace(old, new)\<close> for a non-empty \<open>old\<close>: every occurrence, left to right,
      without overlap.\<close>
  "str_replace old new s = replace_from old new 0 s"

section \<open>generate_docx.py: the line classifier\<close>

datatype role = Title | Contact | SectionHeader | JobTitle | Bullet | Body | Blank

definition section_keywords :: "pystr list" where
  "section_keywords =
     [cps ''EXPERIENCE'', cps ''EDUCATION'', cps ''SKILLS'', cps ''EXPERIENCIA'',
      cps ''EDUCACI'' @ [211] @ cps ''N'', cps ''HABILIDADES'', cps ''WORK EXPERIENCE'',
      cps ''CAREER HISTORY'', cps ''PROFESSIONAL SUMMARY'', cps ''TECHNICAL SKILLS'',
      cps ''CERTIFICATIONS'', cps ''PROJECTS'', cps ''PUBLICATIONS'', cps ''AWARDS'',
      cps ''LANGUAGES'']"

definition is_header_docx :: "unicode_db \<Rightarrow> pystr \<Rightarrow> py_error + bool" where
  \<comment> \<open>The expression \<open>is_header\<close> of \<open>create_docx_from_text\<close>, with the short-circuit
      evaluation of \<open>or\<close> and \<open>and\<close>: \<open>line[0]\<close> is read only when the line is not
      uppercase and shorter than 50.\<close>
  "is_header_docx U line =
     (if str_isupper U line then Inr True
      else if length line < 50 then
        (case getitem line 0 of
           Inl e \<Rightarrow> Inl e
         | Inr c \<Rightarrow>
             if str_isupper U [c] \<and> 124 \<notin> set line then Inr True
             else Inr (list_ex (str_startswith line) section_keywords))
      else Inr (list_ex (str_startswith line) section_keywords))"

definition contact_marker :: "unicode_db \<Rightarrow> pystr \<Rightarrow> bool" where
  "contact_marker U line =
     (64 \<in> set line \<or> in_str (cps ''phone'') (lower_of U line) \<or>
      in_str (cps ''tel'') (lower_of U line) \<or> in_str (cps ''linkedin'') (lower_of U line) \<or>
      in_str (cps ''location'') (lower_of U line) \<or>
      in_str (cps ''ubicaci'' @ [243] @ cps ''n'') (lower_of U line))"

definition is_contact :: "unicode_db \<Rightarrow> pystr \<Rightarrow> nat \<Rightarrow> bool" where
  "is_contact U line i = (i < 3 \<and> contact_marker U line)"

definition is_job_title :: "pystr \<Rightarrow> bool" where
  "is_job_title line = (124 \<in> set line \<and> 2 \<le> length (str_split 124 line))"

definition is_bullet :: "pystr \<Rightarrow> bool" where
  "is_bullet line =
     (str_startswith line [8226] \<or> str_startswith line (cps ''-'') \<or>
      str_startswith line (cps ''*''))"

definition classify :: "unicode_db \<Rightarrow> pystr \<Rightarrow> nat \<Rightarrow> py_error + role" where
  \<comment> \<open>The branch that the body of the loop of \<open>create_docx_from_text\<close> takes for the
      stripped line \<open>line\<close> at index \<open>i\<close>. The four flags are computed before the chain of
      \<open>if\<close>/\<open>elif\<close>, so an error of \<open>is_header\<close> would surface in every branch. The source
      has one branch for the name and the contact lines
      (\<open>is_contact or (i == 0 and len(line) < 100)\<close>); the tag is \<open>Title\<close> when the second
      disjunct admits the line and \<open>Contact\<close> otherwise.\<close>
  "classify U line i =
     (if line = [] then Inr Blank
      else
        (case is_header_docx U line of
           Inl e \<Rightarrow> Inl e
         | Inr header \<Rightarrow>
             if is_contact U line i \<or> (i = 0 \<and> length line < 100) then
               Inr (if i = 0 \<and> length line < 100 then Title else Contact)
             else if header then Inr SectionHeader
             else if is_job_title line then Inr JobTitle
             else if is_bullet line then Inr Bullet
             else Inr Body))"

section \<open>generate_docx.py: the document\<close>

datatype alignment = CENTER

record docx_run =
  run_text :: pystr
  run_bold :: "bool option"
  run_size :: "nat option"

record docx_para =
  par_style :: string
  par_alignment :: "alignment option"
  par_runs :: "docx_run list"
  par_space_after :: "nat option"

definition empty_paragraph :: docx_para where
  \<comment> \<open>\<open>doc.add_paragraph()\<close>\<close>
  "empty_paragraph =
     \<lparr> par_style = ''Normal'', par_alignment = None, par_runs = [], par_space_after = None \<rparr>"

definition plain_run :: "pystr \<Rightarrow> docx_run" where
  \<comment> \<open>\<open>p.add_run(text)\<close>\<close>
  "plain_run t = \<lparr> run_text = t, run_bold = None, run_size = None \<rparr>"

fun paragraph_for :: "role \<Rightarrow> pystr \<Rightarrow> nat \<Rightarrow> docx_para" where
  \<comment> \<open>The bodies of the branches.\<close>
  "paragraph_for Blank line i = empty_paragraph"
| "paragraph_for Title line i =
     empty_paragraph
       \<lparr> par_alignment := Some CENTER,
         par_runs := [(plain_run line)
                        \<lparr> run_bold := Some True, run_size := Some (if i = 0 then 14 else 11) \<rparr>] \<rparr>"
| "paragraph_for Contact line i =
     empty_paragraph
       \<lparr> par_alignment := Some CENTER,
         par_runs := [(plain_run line)
                        \<lparr> run_bold := Some True, run_size := Some (if i = 0 then 14 else 11) \<rparr>] \<rparr>"
| "paragraph_for SectionHeader line i =
     empty_paragraph
       \<lparr> par_runs := [(plain_run line) \<lparr> run_bold := Some True, run_size := Some 12 \<rparr>],
         par_space_after := Some 6 \<rparr>"
| "paragraph_for JobTitle line i =
     empty_paragraph
       \<lparr> par_runs := [(plain_run line) \<lparr> run_bold := Some True \<rparr>], par_space_after := Some 3 \<rparr>"
| "paragraph_for Bullet line i =
     empty_paragraph
       \<lparr> par_style := ''List Bullet'',
         par_runs := [plain_run (str_lstrip ([8226] @ cps ''-* '') line)],
         par_space_after := Some 3 \<rparr>"
| "paragraph_for Body line i =
     empty_paragraph \<lparr> par_runs := [plain_run line], par_space_after := Some 3 \<rparr>"

definition add_line :: "unicode_db \<Rightarrow> docx_para list \<Rightarrow> nat \<Rightarrow> pystr \<Rightarrow> py_error + docx_para list" where
  \<comment> \<open>One iteration of the loop: the document so far, the index and the raw line.\<close>
  "add_line U doc i raw =
     (let line = str_strip U raw in
      case classify U line i of
        Inl e \<Rightarrow> Inl e
      | Inr r \<Rightarrow> Inr (doc @ [paragraph_for r line i]))"

fun add_lines :: "unicode_db \<Rightarrow> docx_para list \<Rightarrow> nat \<Rightarrow> pystr list \<Rightarrow> py_error + docx_para list" where
  \<comment> \<open>\<open>for i, line in enumerate(lines)\<close>, from index \<open>i\<close> on\<close>
  "add_lines U doc i [] = Inr doc"
| "add_lines U doc i (raw # raws) =
     (case add_line U doc i raw of
        Inl e \<Rightarrow> Inl e
      | Inr doc' \<Rightarrow> add_lines U doc' (Suc i) raws)"

definition docx_paragraphs :: "unicode_db \<Rightarrow> pystr \<Rightarrow> py_error + docx_para list" where
  \<comment> \<open>The paragraphs that \<open>create_docx_from_text\<close> adds to the new document for the
      content of the text file.\<close>
  "docx_paragraphs U content = add_lines U [] 0 (str_split 10 content)"

section \<open>generate_pdf.py: from the paragraphs of the DOCX to the PDF\<close>

definition clean_text :: "pystr \<Rightarrow> pystr" where
  \<comment> \<open>The bullet U+2022, the em dash U+2014 and the en dash U+2013 become \<open>-\<close>.\<close>
  "clean_text t =
     str_replace [8211] (cps ''-'') (str_replace [8212] (cps ''-'') (str_replace [8226] (cps ''-'') t))"

definition is_header :: "unicode_db \<Rightarrow> pystr \<Rightarrow> py_error + bool" where
  \<comment> \<open>The function \<open>is_header\<close> of generate_pdf.py.\<close>
  "is_header U line =
     (if str_isupper U line then Inr True
      else if length line < 50 then
        (case getitem line 0 of
           Inl e \<Rightarrow> Inl e
         | Inr c \<Rightarrow>
             if str_isupper U [c] \<and> 124 \<notin> set line then Inr True
             else Inr (list_ex (str_startswith line) section_keywords))
      else Inr (list_ex (str_startswith line) section_keywords))"

definition para_text :: "docx_para \<Rightarrow> pystr" where
  \<comment> \<open>\<open>para.text\<close>: the texts of the runs, concatenated\<close>
  "para_text para = concat (map run_text (par_runs para))"

definition first_run_bold :: "docx_para \<Rightarrow> bool" where
  \<comment> \<open>\<open>is_bold\<close>: false without runs, else the truth value of \<open>para.runs[0].bold\<close>\<close>
  "first_run_bold para =
     (case par_runs para of [] \<Rightarrow> False | first_run # _ \<Rightarrow> run_bold first_run = Some True)"

datatype pdf_role = PdfBlank | PdfSectionHeader | PdfNameOrJobTitle | PdfBullet | PdfRegular

definition name_or_job_title :: "unicode_db \<Rightarrow> bool \<Rightarrow> pystr \<Rightarrow> py_error + bool" where
  \<comment> \<open>\<open>is_bold and len(text) < 100 and ('@' in text or '|' in text or text[0].isupper())\<close>\<close>
  "name_or_job_title U is_bold t =
     (if is_bold \<and> length t < 100 then
        (if 64 \<in> set t \<or> 124 \<in> set t then Inr True
         else (case getitem t 0 of Inl e \<Rightarrow> Inl e | Inr c \<Rightarrow> Inr (str_isupper U [c])))
      else Inr False)"

definition pdf_classify :: "unicode_db \<Rightarrow> docx_para \<Rightarrow> py_error + pdf_role" where
  \<comment> \<open>The branch that the loop of \<open>create_pdf_from_docx\<close> takes for a paragraph of the
      DOCX; the tags are the comments of the branches.\<close>
  "pdf_classify U para =
     (let t = clean_text (str_strip U (para_text para)) in
      if t = [] then Inr PdfBlank
      else
        (case is_header U t of
           Inl e \<Rightarrow> Inl e
         | Inr header \<Rightarrow>
             if header \<and> \<not> first_run_bold para then Inr PdfSectionHeader
             else
               (case name_or_job_title U (first_run_bold para) t of
                  Inl e \<Rightarrow> Inl e
                | Inr True \<Rightarrow> Inr PdfNameOrJobTitle
                | Inr False \<Rightarrow>
                    if str_startswith t (cps ''-'') \<or> str_startswith t (cps ''*'')
                    then Inr PdfBullet else Inr PdfRegular)))"

datatype pdf_style =
  header_style | CustomBoldCenter nat bool | normal_style | bold_style | Heading2 | Normal

datatype flowable = Spacer | Paragraph pdf_style pystr

fun flowable_for :: "pdf_role \<Rightarrow> bool \<Rightarrow> pystr \<Rightarrow> flowable" where
  \<comment> \<open>The bodies of the branches; \<open>CustomBoldCenter\<close> carries the font size and whether
      the paragraph is centred.\<close>
  "flowable_for PdfBlank is_bold t = Spacer"
| "flowable_for PdfSectionHeader is_bold t = Paragraph header_style t"
| "flowable_for PdfNameOrJobTitle is_bold t =
     Paragraph (CustomBoldCenter (if 64 \<in> set t \<or> 124 \<notin> set t then 12 else 10)
                  (64 \<in> set t \<or> 124 \<notin> set t)) t"
| "flowable_for PdfBullet is_bold t = Paragraph normal_style t"
| "flowable_for PdfRegular is_bold t = Paragraph (if is_bold then bold_style else normal_style) t"

fun pdf_story :: "unicode_db \<Rightarrow> docx_para list \<Rightarrow> py_error + flowable list" where
  \<comment> \<open>\<open>for para in doc.paragraphs\<close>\<close>
  "pdf_story U [] = Inr []"
| "pdf_story U (para # paras) =
     (case pdf_classify U para of
        Inl e \<Rightarrow> Inl e
      | Inr r \<Rightarrow>
          (case pdf_story U paras of
             Inl e \<Rightarrow> Inl e
           | Inr story \<Rightarrow>
               Inr (flowable_for r (first_run_bold para)
                      (clean_text (str_strip U (para_text para))) # story)))"

definition readlines :: "pystr \<Rightarrow> pystr list" where
  \<comment> \<open>\<open>f.readlines()\<close>, each line without its newline (\<open>strip\<close> removes it in the caller)\<close>
  "readlines content =
     (let ls = str_split 10 content in if last ls = [] then butlast ls else ls)"

fun simple_story :: "unicode_db \<Rightarrow> pystr list \<Rightarrow> py_error + flowable list" where
  \<comment> \<open>The loop of \<open>create_simple_pdf_from_text\<close>\<close>
  "simple_story U [] = Inr []"
| "simple_story U (raw # raws) =
     (let line = clean_text (str_strip U raw) in
      case (if line = [] then Inr Spacer
            else (case is_header U line of
                    Inl e \<Rightarrow> Inl e
                  | Inr header \<Rightarrow> Inr (Paragraph (if header then Heading2 else Normal) line))) of
        Inl e \<Rightarrow> Inl e
      | Inr item \<Rightarrow>
          (case simple_story U raws of Inl e \<Rightarrow> Inl e | Inr story \<Rightarrow> Inr (item # story)))"

section \<open>File names\<close>

definition docx_file_name :: "pystr \<Rightarrow> pystr" where
  \<comment> \<open>\<open>docx_file = text_file.replace('.txt', '.docx')\<close>\<close>
  "docx_file_name text_file = str_replace (cps ''.txt'') (cps ''.docx'') text_file"

definition pdf_file_name :: "pystr \<Rightarrow> pystr" where
  \<comment> \<open>\<open>pdf_file = docx_file.replace('.docx', '.pdf')\<close>\<close>
  "pdf_file_name docx_file = str_replace (cps ''.docx'') (cps ''.pdf'') docx_file"

definition str_endswith :: "pystr \<Rightarrow> pystr \<Rightarrow> bool" where
  "str_endswith s p = (length p \<le> length s \<and> drop (length s - length p) s = p)"

definition glob_matches :: "pystr \<Rightarrow> pystr \<Rightarrow> pystr \<Rightarrow> bool" where
  \<comment> \<open>A file name matches the pattern \<open>prefix*suffix\<close> of \<open>glob.glob\<close>.\<close>
  "glob_matches pre suf name =
     (length pre + length suf \<le> length name \<and> str_startswith name pre \<and> str_endswith name suf)"

definition substitute_extension :: "pystr \<Rightarrow> pystr \<Rightarrow> pystr \<Rightarrow> pystr" where
  \<comment> \<open>The specification's words, for comparison with the two definitions above: the name
      with its final extension \<open>old\<close> replaced by \<open>new\<close> and the rest unchanged.\<close>
  "substitute_extension old new name = take (length name - length old) name @ new"

section \<open>The batch drivers\<close>

text \<open>
  The scripts read and write files and print. A computation is modelled by the events it
  performs, in order, and its result or the exception it raises; only exceptions of class
  \<open>Exception\<close> are modelled, each by its text \<open>str(e)\<close>. What the file system and the two
  document libraries answer is a parameter.
\<close>

type_synonym exn = pystr

datatype event =
  ReadText pystr
| SaveDocx pystr "docx_para list"
| ReadDocx pystr
| BuildPdf pystr "flowable list"
| Print pystr

type_synonym 'a action = "event list \<times> (exn + 'a)"

record environment =
  read_text :: "pystr \<Rightarrow> exn + pystr"
  save_docx :: "pystr \<Rightarrow> docx_para list \<Rightarrow> exn + unit"
  read_docx :: "pystr \<Rightarrow> exn + docx_para list"
  build_pdf :: "pystr \<Rightarrow> flowable list \<Rightarrow> exn + unit"

definition events :: "'a action \<Rightarrow> event list" where
  "events a = fst a"

definition outcome :: "'a action \<Rightarrow> exn + 'a" where
  "outcome a = snd a"

definition return :: "'a \<Rightarrow> 'a action" where
  "return v = ([], Inr v)"

definition perform :: "event \<Rightarrow> exn + 'a \<Rightarrow> 'a action" where
  \<comment> \<open>A call of the environment: the event, and what the environment answers.\<close>
  "perform ev answer = ([ev], answer)"

definition print :: "pystr \<Rightarrow> unit action" where
  "print msg = ([Print msg], Inr ())"

definition lift_py :: "py_error + 'a \<Rightarrow> 'a action" where
  "lift_py r =
     (case r of Inl IndexError \<Rightarrow> ([], Inl (cps ''string index out of range'')) | Inr v \<Rightarrow> ([], Inr v))"

definition then_do :: "'a action \<Rightarrow> ('a \<Rightarrow> 'b action) \<Rightarrow> 'b action" where
  \<comment> \<open>Sequencing: an exception of the first part skips the second.\<close>
  "then_do m f =
     (case m of
        (evs, Inl e) \<Rightarrow> (evs, Inl e)
      | (evs, Inr v) \<Rightarrow> (case f v of (evs', r) \<Rightarrow> (evs @ evs', r)))"

definition try_except :: "'a action \<Rightarrow> (exn \<Rightarrow> 'a action) \<Rightarrow> 'a action" where
  \<comment> \<open>\<open>try: ... except Exception as e: ...\<close>\<close>
  "try_except m handler =
     (case m of
        (evs, Inl e) \<Rightarrow> (case handler e of (evs', r) \<Rightarrow> (evs @ evs', r))
      | (evs, Inr v) \<Rightarrow> (evs, Inr v))"

fun for_each :: "('a \<Rightarrow> unit action) \<Rightarrow> 'a list \<Rightarrow> unit action" where
  \<comment> \<open>\<open>for x in xs: body\<close>; an exception that leaves the body ends the loop.\<close>
  "for_each body [] = return ()"
| "for_each body (x # xs) = then_do (body x) (\<lambda>_. for_each body xs)"

definition exit_status :: "'a action \<Rightarrow> nat" where
  \<comment> \<open>The interpreter exits with 1 on an uncaught exception and with 0 otherwise.\<close>
  "exit_status a = (case outcome a of Inl e \<Rightarrow> 1 | Inr v \<Rightarrow> 0)"

fun str_of_nat :: "nat \<Rightarrow> pystr" where
  \<comment> \<open>The decimal digits of a number, as an f-string prints it.\<close>
  "str_of_nat n = (if n < 10 then [48 + n] else str_of_nat (n div 10) @ [48 + n mod 10])"

declare str_of_nat.simps [simp del]

definition create_docx_from_text :: "unicode_db \<Rightarrow> environment \<Rightarrow> pystr \<Rightarrow> pystr action" where
  \<comment> \<open>\<open>save_docx\<close> stands for the calls of python-docx that build and save the document.\<close>
  "create_docx_from_text U env text_file =
     (let docx_file = docx_file_name text_file in
      then_do (perform (ReadText text_file) (read_text env text_file)) (\<lambda>content.
      then_do (lift_py (docx_paragraphs U content)) (\<lambda>doc.
      then_do (perform (SaveDocx docx_file doc) (save_docx env docx_file doc)) (\<lambda>_.
      then_do (print (cps ''Created: '' @ docx_file)) (\<lambda>_.
      return docx_file)))))"

definition docx_iteration :: "unicode_db \<Rightarrow> environment \<Rightarrow> pystr \<Rightarrow> unit action" where
  \<comment> \<open>The body of the loop of \<open>main\<close>: one file, inside \<open>try\<close>/\<open>except\<close>.\<close>
  "docx_iteration U env text_file =
     try_except
       (then_do (create_docx_from_text U env text_file) (\<lambda>_. return ()))
       (\<lambda>e. print (cps ''Error converting '' @ text_file @ cps '': '' @ e))"

definition main_docx :: "unicode_db \<Rightarrow> environment \<Rightarrow> pystr list \<Rightarrow> unit action" where
  \<comment> \<open>\<open>main\<close> of generate_docx.py; \<open>text_files\<close> is \<open>sorted(glob.glob('resume-*.txt'))\<close>.\<close>
  "main_docx U env text_files =
     (if text_files = [] then print (cps ''No resume text files found!'')
      else
        then_do (print (cps ''Found '' @ str_of_nat (length text_files) @
                        cps '' text files to convert...'')) (\<lambda>_.
        for_each (docx_iteration U env) text_files))"

definition create_simple_pdf_from_text ::
  "unicode_db \<Rightarrow> environment \<Rightarrow> pystr \<Rightarrow> pystr \<Rightarrow> unit action" where
  "create_simple_pdf_from_text U env text_file pdf_file =
     then_do (perform (ReadText text_file) (read_text env text_file)) (\<lambda>content.
     then_do (lift_py (simple_story U (readlines content))) (\<lambda>story.
     then_do (perform (BuildPdf pdf_file story) (build_pdf env pdf_file story)) (\<lambda>_.
     print (cps ''Created (from text): '' @ pdf_file))))"

definition docx_to_pdf :: "unicode_db \<Rightarrow> environment \<Rightarrow> pystr \<Rightarrow> pystr \<Rightarrow> pystr option action" where
  \<comment> \<open>The \<open>try\<close> block of \<open>create_pdf_from_docx\<close>; \<open>build_pdf\<close> stands for the calls
      of reportlab that build the paragraphs and the file.\<close>
  "docx_to_pdf U env docx_file pdf_file =
     then_do (perform (ReadDocx docx_file) (read_docx env docx_file)) (\<lambda>doc.
     then_do (lift_py (pdf_story U doc)) (\<lambda>story.
     then_do (perform (BuildPdf pdf_file story) (build_pdf env pdf_file story)) (\<lambda>_.
     then_do (print (cps ''Created: '' @ pdf_file)) (\<lambda>_.
     return (Some pdf_file)))))"

definition text_file_of :: "pystr \<Rightarrow> pystr" where
  \<comment> \<open>\<open>text_file = docx_file.replace('.docx', '.txt')\<close>\<close>
  "text_file_of docx_file = str_replace (cps ''.docx'') (cps ''.txt'') docx_file"

definition create_pdf_from_docx :: "unicode_db \<Rightarrow> environment \<Rightarrow> pystr \<Rightarrow> pystr option action" where
  \<comment> \<open>On an exception of the \<open>try\<close> block: the message, then the fallback from the text
      file, itself inside \<open>try\<close>/\<open>except\<close>; the function returns \<open>None\<close>.\<close>
  "create_pdf_from_docx U env docx_file =
     (let pdf_file = pdf_file_name docx_file in
      try_except (docx_to_pdf U env docx_file pdf_file)
        (\<lambda>e.
          then_do (print (cps ''Error converting '' @ docx_file @ cps '' to PDF: '' @ e)) (\<lambda>_.
          then_do
            (try_except
               (create_simple_pdf_from_text U env (text_file_of docx_file) pdf_file)
               (\<lambda>e2. print (cps ''Fallback also failed: '' @ e2))) (\<lambda>_.
          return None))))"

definition pdf_iteration :: "unicode_db \<Rightarrow> environment \<Rightarrow> pystr \<Rightarrow> unit action" where
  \<comment> \<open>The body of the loop of \<open>main\<close>: one file, inside \<open>try\<close>/\<open>except\<close>.\<close>
  "pdf_iteration U env docx_file =
     try_except
       (then_do (create_pdf_from_docx U env docx_file) (\<lambda>_. return ()))
       (\<lambda>e. print (cps ''Error with '' @ docx_file @ cps '': '' @ e))"

definition main_pdf :: "unicode_db \<Rightarrow> environment \<Rightarrow> pystr list \<Rightarrow> unit action" where
  \<comment> \<open>\<open>main\<close> of generate_pdf.py; \<open>docx_files\<close> is \<open>sorted(glob.glob('resume-*.docx'))\<close>.\<close>
  "main_pdf U env docx_files =
     (if docx_files = [] then print (cps ''No DOCX files found!'')
      else
        then_do (print (cps ''Found '' @ str_of_nat (length docx_files) @
                        cps '' DOCX files to convert...'')) (\<lambda>_.
        for_each (pdf_iteration U env) docx_files))"

text \<open>The files that a run opens, in order, read off its events.\<close>

definition text_files_read :: "event list \<Rightarrow> pystr list" where
  "text_files_read evs = concat (map (\<lambda>ev. case ev of ReadText f \<Rightarrow> [f] | _ \<Rightarrow> []) evs)"

definition docx_files_read :: "event list \<Rightarrow> pystr list" where
  "docx_files_read evs = concat (map (\<lambda>ev. case ev of ReadDocx f \<Rightarrow> [f] | _ \<Rightarrow> []) evs)"

definition failing_env :: environment where
  \<comment> \<open>An environment in which the files of \<open>resume-b\<close> cannot be read.\<close>
  "failing_env =
     \<lparr> read_text = (\<lambda>f. if f = cps ''resume-b.txt'' then Inl (cps ''bad encoding'')
                         else Inr (cps ''Jane Doe'')),
       save_docx = (\<lambda>f doc. Inr ()),
       read_docx = (\<lambda>f. if f = cps ''resume-b.docx'' then Inl (cps ''bad zip file'') else Inr []),
       build_pdf = (\<lambda>f story. Inr ()) \<rparr>"


section \<open>The roles of the two scripts, compared\<close>

fun same_role :: "role \<Rightarrow> pdf_role \<Rightarrow> bool" where
  \<comment> \<open>A branch of generate_pdf.py stands for the same role as a branch of
      generate_docx.py; the PDF script has one branch for names, contact lines and job
      titles.\<close>
  "same_role Blank p = (p = PdfBlank)"
| "same_role Title p = (p = PdfNameOrJobTitle)"
| "same_role Contact p = (p = PdfNameOrJobTitle)"
| "same_role SectionHeader p = (p = PdfSectionHeader)"
| "same_role JobTitle p = (p = PdfNameOrJobTitle)"
| "same_role Bullet p = (p = PdfBullet)"
| "same_role Body p = (p = PdfRegular)"

section \<open>Rule 4 in the words of the specification\<close>

definition spec_all_uppercase :: "unicode_db \<Rightarrow> (pychar \<Rightarrow> bool) \<Rightarrow> pystr \<Rightarrow> bool" where
  \<comment> \<open>The first test of rule 4 as the specification words it, for comparison with
      \<open>str_isupper\<close>: no lowercase character and at least one letter. Which code points are
      letters (\<open>str.isalpha\<close>) is a parameter, as the scripts never ask.\<close>
  "spec_all_uppercase U letter line =
     (list_all (\<lambda>c. \<not> ch_islower U c) line \<and> list_ex letter line)"

definition ascii_or_cjk_letter :: "pychar \<Rightarrow> bool" where
  \<comment> \<open>Letters among the ASCII code points and the CJK unified ideographs U+4E00 to
      U+9FFF; the ideographs are letters without case.\<close>
  "ascii_or_cjk_letter c =
     ((65 \<le> c \<and> c \<le> 90) \<or> (97 \<le> c \<and> c \<le> 122) \<or> (19968 \<le> c \<and> c \<le> 40959))"

section \<open>Rule 5 in the words of the specification\<close>

definition spec_is_job_title :: "pystr \<Rightarrow> bool" where
  \<comment> \<open>Rule 5 as the specification words it, for comparison with \<open>is_job_title\<close>: the line
      contains the separator and splitting on it yields at least 2 non-empty segments.\<close>
  "spec_is_job_title line =
     (124 \<in> set line \<and> 2 \<le> length (filter (\<lambda>seg. seg \<noteq> []) (str_split 124 line)))"

section \<open>The classifier\<close>

lemma getitem_0_Cons: "getitem (c # cs) 0 = Inr c"
  by (simp add: getitem_def)

lemma is_header_docx_empty: "is_header_docx U [] = Inl IndexError"
  by (simp add: is_header_docx_def str_isupper_def getitem_def)

lemma is_header_docx_Cons: "\<exists>h. is_header_docx U (c # cs) = Inr h"
  by (auto simp: is_header_docx_def getitem_0_Cons)

lemma is_header_docx_isupper: "str_isupper U line \<Longrightarrow> is_header_docx U line = Inr True"
  by (simp add: is_header_docx_def)

lemma str_strip_all_space: "list_all (ch_isspace U) raw \<Longrightarrow> str_strip U raw = []"
proof -
  assume "list_all (ch_isspace U) raw"
  then have empty: "dropWhile (ch_isspace U) raw = []"
    by (simp add: list_all_iff)
  show ?thesis unfolding str_strip_def empty by simp
qed

lemma str_split_not_Nil: "str_split sep s \<noteq> []"
  by (induction s) (auto split: list.splits)

lemma length_str_split_Cons:
  "length (str_split sep (c # cs)) =
     (if c = sep then Suc (length (str_split sep cs)) else length (str_split sep cs))"
  by (auto split: list.splits simp: str_split_not_Nil)

lemma str_split_two_segments: "sep \<in> set s \<Longrightarrow> 2 \<le> length (str_split sep s)"
proof (induction s)
  case Nil
  then show ?case by simp
next
  case (Cons c cs)
  show ?case
  proof (cases "c = sep")
    case True
    have "1 \<le> length (str_split sep cs)"
      using str_split_not_Nil [of sep cs] by (cases "str_split sep cs") auto
    with True show ?thesis by (simp only: length_str_split_Cons) simp
  next
    case False
    with Cons.prems have "sep \<in> set cs" by simp
    then have "2 \<le> length (str_split sep cs)" by (rule Cons.IH)
    with False show ?thesis by (simp only: length_str_split_Cons) simp
  qed
qed

lemma is_job_title_iff: "is_job_title line = (124 \<in> set line)"
  using str_split_two_segments [of 124 line] by (auto simp: is_job_title_def)

lemma classify_returns: "\<exists>r. classify U line i = Inr r"
proof (cases line)
  case Nil
  then show ?thesis by (simp add: classify_def)
next
  case (Cons c cs)
  obtain h where "is_header_docx U (c # cs) = Inr h"
    using is_header_docx_Cons by blast
  with Cons show ?thesis by (simp add: classify_def)
qed

lemma add_line_appends:
  "classify U (str_strip U raw) i = Inr r \<Longrightarrow>
   add_line U doc i raw = Inr (doc @ [paragraph_for r (str_strip U raw) i])"
  by (simp add: add_line_def)

lemma add_lines_emits:
  "\<exists>ps. (\<forall>doc. add_lines U doc i raws = Inr (doc @ ps)) \<and> length ps = length raws \<and>
     (\<forall>k<length raws. \<exists>r. classify U (str_strip U (raws ! k)) (i + k) = Inr r \<and>
        ps ! k = paragraph_for r (str_strip U (raws ! k)) (i + k))"
proof (induction raws arbitrary: i)
  case Nil
  show ?case by simp
next
  case (Cons raw raws)
  obtain r where r: "classify U (str_strip U raw) i = Inr r"
    using classify_returns by blast
  obtain ps where run: "\<And>doc. add_lines U doc (Suc i) raws = Inr (doc @ ps)"
    and len: "length ps = length raws"
    and each: "\<And>k. k < length raws \<Longrightarrow>
        \<exists>r. classify U (str_strip U (raws ! k)) (Suc i + k) = Inr r \<and>
          ps ! k = paragraph_for r (str_strip U (raws ! k)) (Suc i + k)"
    using Cons.IH [of "Suc i"] by blast
  let ?p = "paragraph_for r (str_strip U raw) i"
  have "\<forall>doc. add_lines U doc i (raw # raws) = Inr (doc @ ?p # ps)"
    by (simp add: add_line_appends [OF r] run)
  moreover have "length (?p # ps) = length (raw # raws)"
    by (simp add: len)
  moreover have "\<forall>k<length (raw # raws).
      \<exists>r'. classify U (str_strip U ((raw # raws) ! k)) (i + k) = Inr r' \<and>
        (?p # ps) ! k = paragraph_for r' (str_strip U ((raw # raws) ! k)) (i + k)"
  proof (intro allI impI)
    fix k assume "k < length (raw # raws)"
    then show "\<exists>r'. classify U (str_strip U ((raw # raws) ! k)) (i + k) = Inr r' \<and>
        (?p # ps) ! k = paragraph_for r' (str_strip U ((raw # raws) ! k)) (i + k)"
    proof (cases k)
      case 0
      with r show ?thesis by simp
    next
      case (Suc j)
      with \<open>k < length (raw # raws)\<close> have "j < length raws" by simp
      from each [OF this] Suc show ?thesis by simp
    qed
  qed
  ultimately show ?case by blast
qed

lemmas eval_defs = cps_def ascii_db_def classify_def is_contact_def is_header_docx_def
  is_header_def str_isupper_def getitem_def section_keywords_def str_startswith_def
  is_job_title_def is_bullet_def pdf_classify_def para_text_def first_run_bold_def
  empty_paragraph_def plain_run_def str_strip_def clean_text_def str_replace_def
  name_or_job_title_def str_lstrip_def

lemma first_run_bold_header: "first_run_bold (paragraph_for SectionHeader line i)"
  by (simp add: first_run_bold_def empty_paragraph_def plain_run_def)

lemma replace_from_skip: "length s \<le> k \<Longrightarrow> replace_from old new k s = []"
proof (induction s arbitrary: k)
  case Nil
  show ?case by simp
next
  case (Cons c cs)
  then obtain j where "k = Suc j" and "length cs \<le> j"
    by (cases k) auto
  with Cons.IH show ?case by simp
qed

lemma replace_from_no_dot:
  "46 \<notin> set base \<Longrightarrow>
   replace_from (46 # old) new 0 (base @ 46 # old) = base @ new"
  by (induction base) (auto simp: str_startswith_def replace_from_skip)

text \<open>The usual case: a name with no other dot than the one of its extension.\<close>

lemma docx_file_name_usual:
  "46 \<notin> set base \<Longrightarrow> docx_file_name (base @ cps ''.txt'') = base @ cps ''.docx''"
  using replace_from_no_dot [of base "cps ''txt''" "cps ''.docx''"]
  by (simp add: docx_file_name_def str_replace_def cps_def)

section \<open>The batch drivers: properties\<close>

lemma outcome_return [simp]: "outcome (return v) = Inr v"
  by (simp add: outcome_def return_def)

lemma events_return [simp]: "events (return v) = []"
  by (simp add: events_def return_def)

lemma outcome_perform [simp]: "outcome (perform ev answer) = answer"
  by (simp add: outcome_def perform_def)

lemma events_perform [simp]: "events (perform ev answer) = [ev]"
  by (simp add: events_def perform_def)

lemma outcome_print [simp]: "outcome (print msg) = Inr ()"
  by (simp add: outcome_def print_def)

lemma events_print [simp]: "events (print msg) = [Print msg]"
  by (simp add: events_def print_def)

lemma events_lift_py [simp]: "events (lift_py r) = []"
  by (simp add: events_def lift_py_def split: sum.splits py_error.splits)

lemma outcome_then_do:
  "outcome (then_do m f) = (case outcome m of Inl e \<Rightarrow> Inl e | Inr v \<Rightarrow> outcome (f v))"
  by (simp add: outcome_def then_do_def split: prod.splits sum.splits)

lemma events_then_do:
  "events (then_do m f) =
     (case outcome m of Inl e \<Rightarrow> events m | Inr v \<Rightarrow> events m @ events (f v))"
  by (simp add: outcome_def events_def then_do_def split: prod.splits sum.splits)

lemma outcome_try_except:
  "outcome (try_except m h) = (case outcome m of Inl e \<Rightarrow> outcome (h e) | Inr v \<Rightarrow> Inr v)"
  by (simp add: outcome_def try_except_def split: prod.splits sum.splits)

lemma events_try_except:
  "events (try_except m h) =
     (case outcome m of Inl e \<Rightarrow> events m @ events (h e) | Inr v \<Rightarrow> events m)"
  by (simp add: outcome_def events_def try_except_def split: prod.splits sum.splits)

lemmas action_simps = outcome_then_do events_then_do outcome_try_except events_try_except

lemma for_each_all_caught:
  "(\<And>x. outcome (body x) = Inr ()) \<Longrightarrow>
   outcome (for_each body xs) = Inr () \<and>
   events (for_each body xs) = concat (map (\<lambda>x. events (body x)) xs)"
  by (induction xs) (simp_all add: action_simps)

lemma text_files_read_append [simp]:
  "text_files_read (xs @ ys) = text_files_read xs @ text_files_read ys"
  by (simp add: text_files_read_def)

lemma docx_files_read_append [simp]:
  "docx_files_read (xs @ ys) = docx_files_read xs @ docx_files_read ys"
  by (simp add: docx_files_read_def)

lemma text_files_read_simps [simp]:
  "text_files_read [] = []"
  "text_files_read (ReadText f # evs) = f # text_files_read evs"
  "text_files_read (SaveDocx g d # evs) = text_files_read evs"
  "text_files_read (ReadDocx g # evs) = text_files_read evs"
  "text_files_read (BuildPdf g s # evs) = text_files_read evs"
  "text_files_read (Print m # evs) = text_files_read evs"
  by (simp_all add: text_files_read_def)

lemma docx_files_read_simps [simp]:
  "docx_files_read [] = []"
  "docx_files_read (ReadDocx f # evs) = f # docx_files_read evs"
  "docx_files_read (SaveDocx g d # evs) = docx_files_read evs"
  "docx_files_read (ReadText g # evs) = docx_files_read evs"
  "docx_files_read (BuildPdf g s # evs) = docx_files_read evs"
  "docx_files_read (Print m # evs) = docx_files_read evs"
  by (simp_all add: docx_files_read_def)

lemma text_files_read_concat:
  "text_files_read (concat xss) = concat (map text_files_read xss)"
  by (induction xss) simp_all

lemma docx_files_read_concat:
  "docx_files_read (concat xss) = concat (map docx_files_read xss)"
  by (induction xss) simp_all

subsection \<open>The loop of generate_docx.py\<close>

lemma create_docx_reads_once:
  "text_files_read (events (create_docx_from_text U env f)) = [f]"
  by (simp add: create_docx_from_text_def Let_def action_simps split: sum.splits)

lemma docx_iteration_outcome: "outcome (docx_iteration U env f) = Inr ()"
  by (simp add: docx_iteration_def action_simps split: sum.splits)

lemma docx_iteration_reads: "text_files_read (events (docx_iteration U env f)) = [f]"
  by (simp add: docx_iteration_def action_simps create_docx_reads_once split: sum.splits)

lemma docx_iteration_reports:
  "outcome (create_docx_from_text U env f) = Inl e \<Longrightarrow>
   Print (cps ''Error converting '' @ f @ cps '': '' @ e) \<in> set (events (docx_iteration U env f))"
  by (simp add: docx_iteration_def action_simps)

lemma main_docx_unfold:
  "text_files \<noteq> [] \<Longrightarrow>
   main_docx U env text_files =
     then_do (print (cps ''Found '' @ str_of_nat (length text_files) @
                     cps '' text files to convert...'')) (\<lambda>_.
       for_each (docx_iteration U env) text_files)"
  by (simp add: main_docx_def)

lemma main_docx_outcome: "outcome (main_docx U env text_files) = Inr ()"
proof (cases "text_files = []")
  case True
  then show ?thesis by (simp add: main_docx_def)
next
  case False
  then show ?thesis
    using for_each_all_caught [of "docx_iteration U env" text_files]
    by (simp add: main_docx_unfold action_simps docx_iteration_outcome)
qed

lemma main_docx_events:
  "text_files \<noteq> [] \<Longrightarrow>
   events (main_docx U env text_files) =
     Print (cps ''Found '' @ str_of_nat (length text_files) @ cps '' text files to convert...'') #
     concat (map (\<lambda>f. events (docx_iteration U env f)) text_files)"
  using for_each_all_caught [of "docx_iteration U env" text_files]
  by (simp add: main_docx_unfold action_simps docx_iteration_outcome)

lemma concat_singletons: "concat (map (\<lambda>x. [x]) xs) = xs"
  by (induction xs) simp_all

lemma main_docx_reads: "text_files_read (events (main_docx U env text_files)) = text_files"
proof (cases "text_files = []")
  case True
  then show ?thesis by (simp add: main_docx_def)
next
  case False
  then show ?thesis
    by (simp add: main_docx_events text_files_read_concat comp_def docx_iteration_reads
        concat_singletons)
qed

lemma main_docx_reports:
  assumes "f \<in> set text_files" and "outcome (create_docx_from_text U env f) = Inl e"
  shows "Print (cps ''Error converting '' @ f @ cps '': '' @ e)
           \<in> set (events (main_docx U env text_files))"
proof -
  from assms(1) have "text_files \<noteq> []" by auto
  moreover have "Print (cps ''Error converting '' @ f @ cps '': '' @ e)
      \<in> set (events (docx_iteration U env f))"
    using assms(2) by (rule docx_iteration_reports)
  ultimately show ?thesis
    using assms(1) by (auto simp: main_docx_events)
qed

subsection \<open>The loop of generate_pdf.py\<close>

lemma docx_to_pdf_reads:
  "docx_files_read (events (docx_to_pdf U env f p)) = [f]"
  "text_files_read (events (docx_to_pdf U env f p)) = []"
  by (simp_all add: docx_to_pdf_def action_simps split: sum.splits)

lemma simple_pdf_reads:
  "docx_files_read (events (create_simple_pdf_from_text U env t p)) = []"
  "text_files_read (events (create_simple_pdf_from_text U env t p)) = [t]"
  by (simp_all add: create_simple_pdf_from_text_def action_simps split: sum.splits)

lemma create_pdf_outcome: "\<exists>v. outcome (create_pdf_from_docx U env f) = Inr v"
  by (simp add: create_pdf_from_docx_def Let_def action_simps split: sum.splits)

lemma create_pdf_docx_reads:
  "docx_files_read (events (create_pdf_from_docx U env f)) = [f]"
  by (simp add: create_pdf_from_docx_def Let_def action_simps docx_to_pdf_reads
      simple_pdf_reads split: sum.splits)

lemma create_pdf_text_reads:
  "text_files_read (events (create_pdf_from_docx U env f)) =
     (if isl (outcome (docx_to_pdf U env f (pdf_file_name f))) then [text_file_of f] else [])"
  by (simp add: create_pdf_from_docx_def Let_def action_simps docx_to_pdf_reads
      simple_pdf_reads text_file_of_def split: sum.splits)

lemma create_pdf_reports:
  "outcome (docx_to_pdf U env f (pdf_file_name f)) = Inl e \<Longrightarrow>
   Print (cps ''Error converting '' @ f @ cps '' to PDF: '' @ e)
     \<in> set (events (create_pdf_from_docx U env f))"
  by (simp add: create_pdf_from_docx_def Let_def action_simps split: sum.splits)

lemma pdf_iteration_outcome: "outcome (pdf_iteration U env f) = Inr ()"
  using create_pdf_outcome [of U env f]
  by (auto simp: pdf_iteration_def action_simps split: sum.splits)

lemma pdf_iteration_events:
  "events (pdf_iteration U env f) = events (create_pdf_from_docx U env f)"
  using create_pdf_outcome [of U env f]
  by (auto simp: pdf_iteration_def action_simps split: sum.splits)

lemma main_pdf_unfold:
  "docx_files \<noteq> [] \<Longrightarrow>
   main_pdf U env docx_files =
     then_do (print (cps ''Found '' @ str_of_nat (length docx_files) @
                     cps '' DOCX files to convert...'')) (\<lambda>_.
       for_each (pdf_iteration U env) docx_files)"
  by (simp add: main_pdf_def)

lemma main_pdf_outcome: "outcome (main_pdf U env docx_files) = Inr ()"
proof (cases "docx_files = []")
  case True
  then show ?thesis by (simp add: main_pdf_def)
next
  case False
  then show ?thesis
    using for_each_all_caught [of "pdf_iteration U env" docx_files]
    by (simp add: main_pdf_unfold action_simps pdf_iteration_outcome)
qed

lemma main_pdf_events:
  "docx_files \<noteq> [] \<Longrightarrow>
   events (main_pdf U env docx_files) =
     Print (cps ''Found '' @ str_of_nat (length docx_files) @ cps '' DOCX files to convert...'') #
     concat (map (\<lambda>f. events (create_pdf_from_docx U env f)) docx_files)"
  using for_each_all_caught [of "pdf_iteration U env" docx_files]
  by (simp add: main_pdf_unfold action_simps pdf_iteration_outcome pdf_iteration_events)

lemma main_pdf_docx_reads: "docx_files_read (events (main_pdf U env docx_files)) = docx_files"
proof (cases "docx_files = []")
  case True
  then show ?thesis by (simp add: main_pdf_def)
next
  case False
  then show ?thesis
    by (simp add: main_pdf_events docx_files_read_concat comp_def create_pdf_docx_reads
        concat_singletons)
qed

lemma concat_map_if:
  "concat (map (\<lambda>x. if P x then [g x] else []) xs) = map g (filter P xs)"
  by (induction xs) simp_all

lemma main_pdf_text_reads:
  "text_files_read (events (main_pdf U env docx_files)) =
     map text_file_of
       (filter (\<lambda>f. isl (outcome (docx_to_pdf U env f (pdf_file_name f)))) docx_files)"
proof (cases "docx_files = []")
  case True
  then show ?thesis by (simp add: main_pdf_def)
next
  case False
  then show ?thesis
    by (simp add: main_pdf_events text_files_read_concat comp_def create_pdf_text_reads
        concat_map_if)
qed

lemma main_pdf_reports:
  assumes "f \<in> set docx_files" and "outcome (docx_to_pdf U env f (pdf_file_name f)) = Inl e"
  shows "Print (cps ''Error converting '' @ f @ cps '' to PDF: '' @ e)
           \<in> set (events (main_pdf U env docx_files))"
proof -
  from assms(1) have "docx_files \<noteq> []" by auto
  moreover have "Print (cps ''Error converting '' @ f @ cps '' to PDF: '' @ e)
      \<in> set (events (create_pdf_from_docx U env f))"
    using assms(2) by (rule create_pdf_reports)
  ultimately show ?thesis
    using assms(1) by (auto simp: main_pdf_events)
qed


section \<open>Properties of the scripts\<close>

text \<open>
  C4. For every string and every position, \<open>classify\<close> returns a role and raises nothing:
  the first character of the line, \<open>line[0]\<close>, is read on non-empty lines only (on the
  empty string the header expression alone raises \<open>IndexError\<close>, see
  \<open>is_header_docx_empty\<close>).
\<close>

theorem classify_total: "\<exists>r. classify U line i = Inr r"
  by (rule classify_returns)

text \<open>
  C9. A line with no character other than whitespace, the empty line included, is
  \<open>Blank\<close> at every position: the test for the empty line comes before every other rule.
\<close>

theorem classify_blank:
  "list_all (ch_isspace U) raw \<Longrightarrow> classify U (str_strip U raw) n = Inr Blank"
  by (simp add: str_strip_all_space classify_def)

theorem classify_blank_witness:
  "list_all (ch_isspace ascii_db) (cps ''  '') \<and>
   classify ascii_db (str_strip ascii_db (cps ''  '')) 0 = Inr Blank"
  using classify_blank [of ascii_db "cps ''  ''" 0] by (simp add: cps_def ascii_db_def)

text \<open>
  C1 (as amended). A line that is uppercase in the sense of \<open>str.isupper\<close> (no lowercase or
  titlecase character and at least one uppercase character) and contains \<open>|\<close>, at a
  position where neither the title nor the contact condition holds, is a
  \<open>SectionHeader\<close> and not a \<open>JobTitle\<close>: the header test comes before the separator test.
\<close>

theorem all_caps_pipe_is_section_header:
  "str_isupper U line \<Longrightarrow> 124 \<in> set line \<Longrightarrow> \<not> (i = 0 \<and> length line < 100) \<Longrightarrow>
   \<not> is_contact U line i \<Longrightarrow>
   classify U line i = Inr SectionHeader \<and> classify U line i \<noteq> Inr JobTitle"
proof -
  assume up: "str_isupper U line" and "\<not> (i = 0 \<and> length line < 100)"
    and "\<not> is_contact U line i"
  from up have "line \<noteq> []" by (auto simp: str_isupper_def)
  moreover from up have "is_header_docx U line = Inr True" by (rule is_header_docx_isupper)
  ultimately have "classify U line i = Inr SectionHeader"
    using \<open>\<not> (i = 0 \<and> length line < 100)\<close> \<open>\<not> is_contact U line i\<close>
    by (simp add: classify_def)
  then show ?thesis by simp
qed

theorem all_caps_pipe_is_section_header_witness:
  "str_isupper ascii_db (cps ''SENIOR ENGINEER | TECHCORP'') \<and>
   124 \<in> set (cps ''SENIOR ENGINEER | TECHCORP'') \<and>
   \<not> is_contact ascii_db (cps ''SENIOR ENGINEER | TECHCORP'') 5 \<and>
   classify ascii_db (cps ''SENIOR ENGINEER | TECHCORP'') 5 = Inr SectionHeader"
  using all_caps_pipe_is_section_header [of ascii_db "cps ''SENIOR ENGINEER | TECHCORP''" 5]
  by (simp add: cps_def ascii_db_def str_isupper_def is_contact_def)

text \<open>
  C1 as stated, for lines of "non-lowercase characters with at least one letter", fails
  on a line whose letters have no case. The line of the code points U+4E2D U+6587, space,
  \<open>|\<close>, space, U+5317 U+4EAC has no lowercase character, has letters and contains \<open>|\<close>;
  \<open>str.isupper\<close> is false on it, no other header test holds, and at index 5 it is a
  \<open>JobTitle\<close>.
\<close>

theorem all_caps_wording_counterexample:
  "spec_all_uppercase ascii_db ascii_or_cjk_letter [20013, 25991, 32, 124, 32, 21271, 20140] \<and>
   124 \<in> set [20013, 25991, 32, 124, 32, 21271, 20140 :: nat] \<and>
   \<not> ((5::nat) = 0 \<and> length [20013, 25991, 32, 124, 32, 21271, 20140 :: nat] < 100) \<and>
   \<not> is_contact ascii_db [20013, 25991, 32, 124, 32, 21271, 20140] 5 \<and>
   \<not> str_isupper ascii_db [20013, 25991, 32, 124, 32, 21271, 20140] \<and>
   classify ascii_db [20013, 25991, 32, 124, 32, 21271, 20140] 5 = Inr JobTitle"
  by (simp add: spec_all_uppercase_def ascii_or_cjk_letter_def eval_defs)

text \<open>
  C2 (as amended). For a non-empty line that is neither a title, nor a contact line, nor a
  header, \<open>classify\<close> returns \<open>JobTitle\<close> exactly when the line contains \<open>|\<close>: the
  source counts every segment of \<open>line.split('|')\<close>, the empty ones too, and a line with
  a separator always has two. Without a separator the line is a \<open>Bullet\<close> or \<open>Body\<close>.
\<close>

theorem job_title_iff_separator:
  "line \<noteq> [] \<Longrightarrow> \<not> (i = 0 \<and> length line < 100) \<Longrightarrow> \<not> is_contact U line i \<Longrightarrow>
   is_header_docx U line = Inr False \<Longrightarrow>
   (classify U line i = Inr JobTitle \<longleftrightarrow> 124 \<in> set line) \<and>
   (124 \<notin> set line \<longrightarrow> classify U line i = Inr (if is_bullet line then Bullet else Body))"
  by (simp add: classify_def is_job_title_iff)

theorem job_title_iff_separator_witness:
  "classify ascii_db (cps ''Senior Engineer | TechCorp | SF'') 5 = Inr JobTitle \<and>
   classify ascii_db (cps ''- Built pipelines'') 10 = Inr Bullet"
  using job_title_iff_separator [of "cps ''Senior Engineer | TechCorp | SF''" 5 ascii_db]
    job_title_iff_separator [of "cps ''- Built pipelines''" 10 ascii_db]
  by (simp add: cps_def ascii_db_def is_contact_def is_header_docx_def str_isupper_def
      getitem_def section_keywords_def str_startswith_def is_bullet_def)

text \<open>
  C2 as stated, with "at least 2 non-empty segments", fails on the line \<open>engineer |\<close>
  at index 5: it has one non-empty segment and is a \<open>JobTitle\<close>.
\<close>

theorem job_title_nonempty_segments_counterexample:
  "cps ''engineer |'' \<noteq> [] \<and> \<not> ((5::nat) = 0 \<and> length (cps ''engineer |'') < 100) \<and>
   \<not> is_contact ascii_db (cps ''engineer |'') 5 \<and>
   is_header_docx ascii_db (cps ''engineer |'') = Inr False \<and>
   classify ascii_db (cps ''engineer |'') 5 = Inr JobTitle \<and>
   \<not> spec_is_job_title (cps ''engineer |'')"
  by (simp add: cps_def ascii_db_def is_contact_def is_header_docx_def str_isupper_def
      getitem_def section_keywords_def str_startswith_def classify_def is_job_title_def
      spec_is_job_title_def)

text \<open>
  C6. No line at index 3 or later is \<open>Contact\<close>; a non-empty line at an index below 3
  that the title rule does not take and that contains \<open>@\<close> or, once lowercased, one of
  \<open>phone\<close>, \<open>tel\<close>, \<open>linkedin\<close>, \<open>location\<close>, \<open>ubicacion\<close> (spelt with U+00F3), is \<open>Contact\<close>.
\<close>

theorem contact_only_first_three:
  "(3 \<le> i \<longrightarrow> classify U line i \<noteq> Inr Contact) \<and>
   (line \<noteq> [] \<and> i < 3 \<and> \<not> (i = 0 \<and> length line < 100) \<and> contact_marker U line \<longrightarrow>
      classify U line i = Inr Contact)"
proof (cases line)
  case Nil
  then show ?thesis by (simp add: classify_def)
next
  case (Cons c cs)
  obtain h where "is_header_docx U (c # cs) = Inr h"
    using is_header_docx_Cons by blast
  with Cons show ?thesis by (auto simp: classify_def is_contact_def)
qed

theorem contact_only_first_three_witness:
  "classify ascii_db (cps ''Phone: 555-0100'') 3 \<noteq> Inr Contact \<and>
   contact_marker ascii_db (cps ''Phone: 555-0100'') \<and>
   classify ascii_db (cps ''Phone: 555-0100'') 2 = Inr Contact"
  using contact_only_first_three [of 3 ascii_db "cps ''Phone: 555-0100''"]
    contact_only_first_three [of 2 ascii_db "cps ''Phone: 555-0100''"]
  by (simp add: cps_def ascii_db_def contact_marker_def str_startswith_def)

text \<open>
  C7. The role of a line is a function of the stripped line and its index, and the loop
  reads nothing else: whatever document \<open>doc\<close> has been built so far, the same raw line at
  the same index gets the same role and appends the same paragraph, and the paragraphs
  emitted for a sequence of lines are the same from every starting state.
\<close>

theorem same_line_same_role:
  "(\<exists>r. classify U (str_strip U raw) i = Inr r \<and>
      (\<forall>doc. add_line U doc i raw = Inr (doc @ [paragraph_for r (str_strip U raw) i]))) \<and>
   (\<exists>ps. \<forall>doc. add_lines U doc i raws = Inr (doc @ ps))"
proof
  obtain r where "classify U (str_strip U raw) i = Inr r"
    using classify_returns by blast
  then show "\<exists>r. classify U (str_strip U raw) i = Inr r \<and>
      (\<forall>doc. add_line U doc i raw = Inr (doc @ [paragraph_for r (str_strip U raw) i]))"
    by (simp add: add_line_def)
next
  show "\<exists>ps. \<forall>doc. add_lines U doc i raws = Inr (doc @ ps)"
    using add_lines_emits [of U i raws] by blast
qed

text \<open>
  C10. The conversion of a text never fails in the loop and adds one paragraph for each
  line of the content split at the newline character, in order: paragraph \<open>k\<close> is the one of the branch taken
  for line \<open>k\<close>, and it is the empty paragraph when the stripped line is empty.
\<close>

theorem one_paragraph_per_line:
  "\<exists>doc. docx_paragraphs U content = Inr doc \<and>
     length doc = length (str_split 10 content) \<and>
     (\<forall>k<length (str_split 10 content).
        \<exists>r. classify U (str_strip U (str_split 10 content ! k)) k = Inr r \<and>
          doc ! k = paragraph_for r (str_strip U (str_split 10 content ! k)) k \<and>
          (str_strip U (str_split 10 content ! k) = [] \<longrightarrow> doc ! k = empty_paragraph))"
proof -
  let ?lines = "str_split 10 content"
  obtain ps where run: "add_lines U [] 0 ?lines = Inr ([] @ ps)"
    and len: "length ps = length ?lines"
    and each: "\<And>k. k < length ?lines \<Longrightarrow>
        \<exists>r. classify U (str_strip U (?lines ! k)) (0 + k) = Inr r \<and>
          ps ! k = paragraph_for r (str_strip U (?lines ! k)) (0 + k)"
    using add_lines_emits [of U 0 ?lines] by blast
  have "\<forall>k<length ?lines.
      \<exists>r. classify U (str_strip U (?lines ! k)) k = Inr r \<and>
        ps ! k = paragraph_for r (str_strip U (?lines ! k)) k \<and>
        (str_strip U (?lines ! k) = [] \<longrightarrow> ps ! k = empty_paragraph)"
  proof (intro allI impI)
    fix k assume "k < length ?lines"
    from each [OF this] obtain r
      where r: "classify U (str_strip U (?lines ! k)) k = Inr r"
        and p: "ps ! k = paragraph_for r (str_strip U (?lines ! k)) k"
      by auto
    have "ps ! k = empty_paragraph" if "str_strip U (?lines ! k) = []"
      using r p that by (simp add: classify_def)
    with r p show "\<exists>r. classify U (str_strip U (?lines ! k)) k = Inr r \<and>
        ps ! k = paragraph_for r (str_strip U (?lines ! k)) k \<and>
        (str_strip U (?lines ! k) = [] \<longrightarrow> ps ! k = empty_paragraph)"
      by blast
  qed
  with run len show ?thesis by (simp add: docx_paragraphs_def)
qed

theorem one_paragraph_per_line_witness:
  "length (str_split 10 (cps ''Jane Doe'' @ [10, 10] @ cps ''- Python'')) = 3 \<and>
   (\<exists>doc. docx_paragraphs ascii_db (cps ''Jane Doe'' @ [10, 10] @ cps ''- Python'') = Inr doc \<and>
      length doc = 3 \<and> doc ! 1 = empty_paragraph)"
proof -
  let ?content = "cps ''Jane Doe'' @ [10, 10] @ cps ''- Python''"
  have lines: "str_split 10 ?content = [cps ''Jane Doe'', [], cps ''- Python'']"
    by (simp add: cps_def)
  obtain doc where doc: "docx_paragraphs ascii_db ?content = Inr doc"
    and len: "length doc = length (str_split 10 ?content)"
    and each: "\<forall>k<length (str_split 10 ?content).
        \<exists>r. classify ascii_db (str_strip ascii_db (str_split 10 ?content ! k)) k = Inr r \<and>
          doc ! k = paragraph_for r (str_strip ascii_db (str_split 10 ?content ! k)) k \<and>
          (str_strip ascii_db (str_split 10 ?content ! k) = [] \<longrightarrow> doc ! k = empty_paragraph)"
    using one_paragraph_per_line [of ascii_db ?content] by blast
  have "1 < length (str_split 10 ?content)"
    by (simp only: lines) simp
  moreover have "str_strip ascii_db (str_split 10 ?content ! 1) = []"
    by (simp only: lines) (simp add: str_strip_def)
  ultimately have "doc ! 1 = empty_paragraph"
    using each by blast
  with doc len show ?thesis by (simp only: lines) simp
qed

text \<open>
  How far the two scripts part on section headers: the paragraph that generate_docx.py
  writes for a section header is bold, and the section-header branch of
  \<open>create_pdf_from_docx\<close> is guarded by \<open>not is_bold\<close>, so no such paragraph reaches it.
\<close>

lemma docx_header_misses_pdf_header_branch:
  "pdf_classify U (paragraph_for SectionHeader line i) \<noteq> Inr PdfSectionHeader"
  using first_run_bold_header [of line i]
  by (auto simp: pdf_classify_def Let_def split: sum.splits bool.splits)

text \<open>
  C3. The two paths are meant to give a line the same role, and do not. The line \<open>SKILLS\<close>
  at index 5 is a \<open>SectionHeader\<close> for generate_docx.py, which writes it bold; in
  \<open>create_pdf_from_docx\<close> the branch commented "Section header" is skipped for it and the
  branch "Name or job title" is taken, while the fallback \<open>create_simple_pdf_from_text\<close> of
  the same script makes \<open>SKILLS\<close> a heading. The line \<open>- Built pipelines\<close> at index 10 is a
  \<open>Bullet\<close> for generate_docx.py, which writes it without the glyph and not bold, and takes
  the section-header branch of \<open>create_pdf_from_docx\<close>.
\<close>

theorem section_header_role_lost_in_pdf:
  "classify ascii_db (cps ''SKILLS'') 5 = Inr SectionHeader \<and>
   pdf_classify ascii_db (paragraph_for SectionHeader (cps ''SKILLS'') 5) = Inr PdfNameOrJobTitle \<and>
   \<not> same_role SectionHeader PdfNameOrJobTitle \<and>
   simple_story ascii_db [cps ''SKILLS''] = Inr [Paragraph Heading2 (cps ''SKILLS'')] \<and>
   classify ascii_db (cps ''- Built pipelines'') 10 = Inr Bullet \<and>
   pdf_classify ascii_db (paragraph_for Bullet (cps ''- Built pipelines'') 10) = Inr PdfSectionHeader \<and>
   \<not> same_role Bullet PdfSectionHeader"
proof -
  have "classify ascii_db (cps ''SKILLS'') 5 = Inr SectionHeader"
    by (simp add: eval_defs)
  moreover have
    "pdf_classify ascii_db (paragraph_for SectionHeader (cps ''SKILLS'') 5) = Inr PdfNameOrJobTitle"
    by (simp add: eval_defs)
  moreover have "simple_story ascii_db [cps ''SKILLS''] = Inr [Paragraph Heading2 (cps ''SKILLS'')]"
    by (simp add: eval_defs)
  moreover have "classify ascii_db (cps ''- Built pipelines'') 10 = Inr Bullet"
    by (simp add: eval_defs)
  moreover have
    "pdf_classify ascii_db (paragraph_for Bullet (cps ''- Built pipelines'') 10) = Inr PdfSectionHeader"
    by (simp add: eval_defs)
  ultimately show ?thesis by simp
qed

text \<open>
  C8. The output name is computed with \<open>str.replace\<close>, which rewrites every occurrence of
  the extension and not the final one only. The name \<open>resume-final.txt.txt\<close> matches the
  pattern \<open>resume-*.txt\<close> of \<open>main\<close>; the script writes \<open>resume-final.docx.docx\<close>, where the
  substitution of the extension gives \<open>resume-final.txt.docx\<close>.
\<close>

theorem docx_file_name_inner_extension:
  "glob_matches (cps ''resume-'') (cps ''.txt'') (cps ''resume-final.txt.txt'') \<and>
   docx_file_name (cps ''resume-final.txt.txt'') = cps ''resume-final.docx.docx'' \<and>
   substitute_extension (cps ''.txt'') (cps ''.docx'') (cps ''resume-final.txt.txt'') =
     cps ''resume-final.txt.docx''"
  by (simp add: glob_matches_def docx_file_name_def substitute_extension_def cps_def
      str_startswith_def str_endswith_def str_replace_def)

text \<open>
  C5. A file whose conversion raises is reported and the batch goes on. For generate_docx.py:
  \<open>main\<close> returns normally (exit status 0); every file of the list is opened once, in the
  order of the list, whatever the others did; and for a file whose conversion raised \<open>e\<close>
  the line \<open>Error converting <file>: <e>\<close> is printed. For generate_pdf.py likewise, with
  the message \<open>Error converting <file> to PDF: <e>\<close>; the conversion of the DOCX is not
  tried again, and the fallback from the text file is run once for each file whose
  conversion raised, and for no other.
\<close>

theorem per_file_errors_are_caught:
  "exit_status (main_docx U env text_files) = 0 \<and>
   text_files_read (events (main_docx U env text_files)) = text_files \<and>
   (\<forall>f e. f \<in> set text_files \<and> outcome (create_docx_from_text U env f) = Inl e \<longrightarrow>
      Print (cps ''Error converting '' @ f @ cps '': '' @ e)
        \<in> set (events (main_docx U env text_files))) \<and>
   exit_status (main_pdf U env docx_files) = 0 \<and>
   docx_files_read (events (main_pdf U env docx_files)) = docx_files \<and>
   text_files_read (events (main_pdf U env docx_files)) =
     map text_file_of
       (filter (\<lambda>f. isl (outcome (docx_to_pdf U env f (pdf_file_name f)))) docx_files) \<and>
   (\<forall>f e. f \<in> set docx_files \<and> outcome (docx_to_pdf U env f (pdf_file_name f)) = Inl e \<longrightarrow>
      Print (cps ''Error converting '' @ f @ cps '' to PDF: '' @ e)
        \<in> set (events (main_pdf U env docx_files)))"
proof (intro conjI allI impI)
  show "exit_status (main_docx U env text_files) = 0"
    by (simp add: exit_status_def main_docx_outcome)
  show "text_files_read (events (main_docx U env text_files)) = text_files"
    by (rule main_docx_reads)
  show "exit_status (main_pdf U env docx_files) = 0"
    by (simp add: exit_status_def main_pdf_outcome)
  show "docx_files_read (events (main_pdf U env docx_files)) = docx_files"
    by (rule main_pdf_docx_reads)
  show "text_files_read (events (main_pdf U env docx_files)) =
     map text_file_of
       (filter (\<lambda>f. isl (outcome (docx_to_pdf U env f (pdf_file_name f)))) docx_files)"
    by (rule main_pdf_text_reads)
next
  fix f e
  assume "f \<in> set text_files \<and> outcome (create_docx_from_text U env f) = Inl e"
  then show "Print (cps ''Error converting '' @ f @ cps '': '' @ e)
      \<in> set (events (main_docx U env text_files))"
    by (simp add: main_docx_reports)
next
  fix f e
  assume "f \<in> set docx_files \<and> outcome (docx_to_pdf U env f (pdf_file_name f)) = Inl e"
  then show "Print (cps ''Error converting '' @ f @ cps '' to PDF: '' @ e)
      \<in> set (events (main_pdf U env docx_files))"
    by (simp add: main_pdf_reports)
qed

theorem per_file_errors_are_caught_witness:
  "cps ''resume-b.txt'' \<in> set [cps ''resume-a.txt'', cps ''resume-b.txt'', cps ''resume-c.txt''] \<and>
   outcome (create_docx_from_text ascii_db failing_env (cps ''resume-b.txt'')) =
     Inl (cps ''bad encoding'') \<and>
   Print (cps ''Error converting '' @ cps ''resume-b.txt'' @ cps '': '' @ cps ''bad encoding'')
     \<in> set (events (main_docx ascii_db failing_env
           [cps ''resume-a.txt'', cps ''resume-b.txt'', cps ''resume-c.txt''])) \<and>
   text_files_read (events (main_docx ascii_db failing_env
       [cps ''resume-a.txt'', cps ''resume-b.txt'', cps ''resume-c.txt''])) =
     [cps ''resume-a.txt'', cps ''resume-b.txt'', cps ''resume-c.txt''] \<and>
   exit_status (main_docx ascii_db failing_env
       [cps ''resume-a.txt'', cps ''resume-b.txt'', cps ''resume-c.txt'']) = 0 \<and>
   cps ''resume-b.docx'' \<in> set [cps ''resume-a.docx'', cps ''resume-b.docx''] \<and>
   outcome (docx_to_pdf ascii_db failing_env (cps ''resume-b.docx'')
       (pdf_file_name (cps ''resume-b.docx''))) = Inl (cps ''bad zip file'') \<and>
   Print (cps ''Error converting '' @ cps ''resume-b.docx'' @ cps '' to PDF: '' @ cps ''bad zip file'')
     \<in> set (events (main_pdf ascii_db failing_env [cps ''resume-a.docx'', cps ''resume-b.docx''])) \<and>
   docx_files_read (events (main_pdf ascii_db failing_env
       [cps ''resume-a.docx'', cps ''resume-b.docx''])) =
     [cps ''resume-a.docx'', cps ''resume-b.docx''] \<and>
   exit_status (main_pdf ascii_db failing_env [cps ''resume-a.docx'', cps ''resume-b.docx'']) = 0"
proof -
  let ?texts = "[cps ''resume-a.txt'', cps ''resume-b.txt'', cps ''resume-c.txt'']"
  let ?docxs = "[cps ''resume-a.docx'', cps ''resume-b.docx'']"
  have in_texts: "cps ''resume-b.txt'' \<in> set ?texts" and in_docxs: "cps ''resume-b.docx'' \<in> set ?docxs"
    by simp_all
  have text_fails: "outcome (create_docx_from_text ascii_db failing_env (cps ''resume-b.txt'')) =
      Inl (cps ''bad encoding'')"
    by (simp add: create_docx_from_text_def Let_def failing_env_def action_simps)
  have docx_fails: "outcome (docx_to_pdf ascii_db failing_env (cps ''resume-b.docx'')
      (pdf_file_name (cps ''resume-b.docx''))) = Inl (cps ''bad zip file'')"
    by (simp add: docx_to_pdf_def failing_env_def action_simps)
  note caught = per_file_errors_are_caught [of ascii_db failing_env ?texts ?docxs]
  from caught in_texts text_fails
  have "Print (cps ''Error converting '' @ cps ''resume-b.txt'' @ cps '': '' @ cps ''bad encoding'')
      \<in> set (events (main_docx ascii_db failing_env ?texts))"
    by blast
  moreover from caught in_docxs docx_fails
  have "Print (cps ''Error converting '' @ cps ''resume-b.docx'' @ cps '' to PDF: '' @ cps ''bad zip file'')
      \<in> set (events (main_pdf ascii_db failing_env ?docxs))"
    by blast
  ultimately show ?thesis
    using caught in_texts in_docxs text_fails docx_fails by blast
qed

end
